theory Spec2Isabelle
  imports Main "HOL-Library.Char_ord" "HOL-Library.List_Lexorder" "HOL-Library.Word"
begin

section \<open>Python string primitives used by the FTP service\<close>

text \<open>
  A Python \<open>str\<close> is modelled as a \<open>string\<close>: a list of characters with code points
  0 to 255 (the range of the Latin-1 decoding of the control channel). Strings are
  compared as Python compares them, lexicographically by code point; this is the order
  of \<open>HOL-Library.List_Lexorder\<close> over \<open>HOL-Library.Char_ord\<close>.
\<close>

definition isspace :: "char \<Rightarrow> bool" where
  \<comment> \<open>the characters \<open>str.split()\<close> treats as whitespace, for code points below 256\<close>
  "isspace c =
     (let n = (of_char c :: nat)
      in (9 \<le> n \<and> n \<le> 13) \<or> (28 \<le> n \<and> n \<le> 32) \<or> n = 133 \<or> n = 160)"

fun split_from :: "string \<Rightarrow> string \<Rightarrow> string list" where
  \<comment> \<open>the scanner of \<open>str.split()\<close>: \<open>tok\<close> is the token read so far\<close>
  "split_from tok [] = (if tok = [] then [] else [tok])"
| "split_from tok (c # cs) =
     (if isspace c
      then (if tok = [] then split_from [] cs else tok # split_from [] cs)
      else split_from (tok @ [c]) cs)"

definition split :: "string \<Rightarrow> string list" where
  \<comment> \<open>\<open>line.split()\<close>: the maximal runs of non-whitespace characters\<close>
  "split line = split_from [] line"

fun join :: "string \<Rightarrow> string list \<Rightarrow> string" where
  \<comment> \<open>\<open>sep.join(parts)\<close>\<close>
  "join sep [] = []"
| "join sep [p] = p"
| "join sep (p # q # ps) = p @ sep @ join sep (q # ps)"

definition startswith :: "string \<Rightarrow> string \<Rightarrow> bool" where
  \<comment> \<open>\<open>s.startswith(prefix)\<close>\<close>
  "startswith s prefix = (take (length prefix) s = prefix)"

definition lower_char :: "char \<Rightarrow> char" where
  \<comment> \<open>the lower-case mapping of Unicode on the code points below 256\<close>
  "lower_char c =
     (let n = (of_char c :: nat)
      in if (65 \<le> n \<and> n \<le> 90) \<or> (192 \<le> n \<and> n \<le> 214) \<or> (216 \<le> n \<and> n \<le> 222)
         then char_of (n + 32) else c)"

definition lower :: "string \<Rightarrow> string" where
  \<comment> \<open>\<open>str.lower\<close>\<close>
  "lower s = map lower_char s"

definition sorted_by :: "('a \<Rightarrow> string) \<Rightarrow> 'a list \<Rightarrow> 'a list" where
  \<comment> \<open>\<open>sorted(xs, key=key)\<close>: a stable sort, ascending in the key\<close>
  "sorted_by key xs = sort_key key xs"

section \<open>The directory listing\<close>

text \<open>
  An entry of the listing is the dictionary
  \<open>{'name': name, 'type': item_type, 'size': size, 'is_dir': is_dir}\<close>; the fields of
  the record are named after the local variables that fill it.
\<close>

record item =
  name :: string
  item_type :: string
  item_size :: string
  is_dir :: bool

fun parse_lines :: "string list \<Rightarrow> item list \<Rightarrow> item list" where
  \<comment> \<open>the body of the \<open>for line in ...\<close> loop of \<open>list_directory\<close>, \<open>items\<close> being the
     list built so far\<close>
  "parse_lines [] items = items"
| "parse_lines (line # rest) items =
     (let parts = split line
      in if length parts < 9 then parse_lines rest items
         else
           let name = join '' '' (drop 8 parts);
               is_dir = startswith line ''d'';
               item_type = (if is_dir then ''Directorio'' else ''Archivo'');
               size = (if \<not> is_dir then parts ! 4 else '''')
           in parse_lines rest
                (items @ [\<lparr>name = name, item_type = item_type, item_size = size,
                           is_dir = is_dir\<rparr>]))"

definition listing_items :: "string list \<Rightarrow> item list" where
  \<comment> \<open>\<open>items = []\<close> followed by the loop over \<open>sorted(lines, key=str.lower)\<close>\<close>
  "listing_items lines = parse_lines (sorted_by lower lines) []"

section \<open>Exceptions\<close>

text \<open>
  Every \<open>raise\<close> is a value. \<open>lib_error\<close> are the exceptions that come out of a call
  into Python's \<open>ftplib\<close>; \<open>exn\<close> are the exceptions a method of the service can end
  with. \<open>NotConnectedError\<close> is the error class the specification names for an
  operation without a session; no statement of the source constructs it.
\<close>

datatype lib_error =
    error_reply string
  | error_temp string
  | error_perm string
  | error_proto string
  | EOFError
  | socket_error
  | ValueError

datatype exn =
    AttributeError string    \<comment> \<open>an attribute looked up on \<open>None\<close>; the attribute's name\<close>
  | OSError string           \<comment> \<open>\<open>open\<close> failed; the path\<close>
  | FTPLibError lib_error    \<comment> \<open>raised inside \<open>ftplib\<close> and not caught\<close>
  | NotConnectedError

section \<open>The collaborators: ftplib and the local file system\<close>

type_synonym bytes = "8 word list"

text \<open>
  The service calls eight operations of \<open>ftplib.FTP\<close>. They are not code of the
  service, so they are parameters of the model: a record of functions over a type
  \<open>'h\<close> of connection objects and a type \<open>'n\<close> of states of everything beyond the local
  machine (network, server). Each function returns what the call returns or raises,
  together with the new state. \<open>retrbinary\<close> also returns the blocks it has handed to
  its callback, in order, which it may have done before it raises. \<open>storbinary\<close> is
  given the content of the open file it reads.
\<close>

record ('h, 'n) ftplib =
  FTP :: "string \<Rightarrow> nat \<Rightarrow> 'n \<Rightarrow> (lib_error + 'h) \<times> 'n"
  login :: "'h \<Rightarrow> string \<Rightarrow> string \<Rightarrow> 'n \<Rightarrow> (lib_error + string) \<times> 'n"
  quit :: "'h \<Rightarrow> 'n \<Rightarrow> (lib_error + string) \<times> 'n"
  cwd :: "'h \<Rightarrow> string \<Rightarrow> 'n \<Rightarrow> (lib_error + string) \<times> 'n"
  pwd :: "'h \<Rightarrow> 'n \<Rightarrow> (lib_error + string) \<times> 'n"
  dir :: "'h \<Rightarrow> 'n \<Rightarrow> (lib_error + string list) \<times> 'n"
  storbinary :: "'h \<Rightarrow> string \<Rightarrow> bytes \<Rightarrow> 'n \<Rightarrow> (lib_error + string) \<times> 'n"
  retrbinary :: "'h \<Rightarrow> string \<Rightarrow> 'n \<Rightarrow> ((lib_error + string) \<times> bytes list) \<times> 'n"

text \<open>
  The world a method runs in: the remote state \<open>net\<close>, the local files by path, and
  the paths that \<open>open(path, 'wb')\<close> can create or truncate. \<open>open(path, 'rb')\<close>
  succeeds on the paths that hold a file.
\<close>

record 'n world =
  net :: 'n
  files :: "string \<rightharpoonup> bytes"
  writable :: "string \<Rightarrow> bool"

fun write_blocks :: "bytes list \<Rightarrow> bytes \<Rightarrow> bytes" where
  \<comment> \<open>the callback \<open>f.write\<close> applied to each block in turn; \<open>buf\<close> is the content of
     the file so far\<close>
  "write_blocks [] buf = buf"
| "write_blocks (block # blocks) buf = write_blocks blocks (buf @ block)"

section \<open>The FTP service\<close>

record 'h FTPService =
  ftp :: "'h option"

type_synonym ('a, 'h, 'n) outcome = "(exn + 'a) \<times> 'h FTPService \<times> 'n world"

definition init :: "'h FTPService" where
  \<comment> \<open>\<open>__init__\<close>\<close>
  "init = \<lparr>ftp = None\<rparr>"

definition connect ::
  "('h, 'n) ftplib \<Rightarrow> 'h FTPService \<Rightarrow> string \<Rightarrow> string \<Rightarrow> string \<Rightarrow> nat \<Rightarrow> 'n world
     \<Rightarrow> (string, 'h, 'n) outcome" where
  "connect lib self host user password timeout w =
     (case FTP lib host timeout (net w) of
        (Inl e, n1) \<Rightarrow> (Inl (FTPLibError e), self, w\<lparr>net := n1\<rparr>)
      | (Inr h, n1) \<Rightarrow>
          (let self1 = self\<lparr>ftp := Some h\<rparr>
           in case login lib h user password n1 of
                (Inl e, n2) \<Rightarrow> (Inl (FTPLibError e), self1, w\<lparr>net := n2\<rparr>)
              | (Inr welcome_message, n2) \<Rightarrow> (Inr welcome_message, self1, w\<lparr>net := n2\<rparr>)))"

definition default_timeout :: nat where
  \<comment> \<open>the default of the parameter \<open>timeout\<close> of \<open>connect\<close>\<close>
  "default_timeout = 10"

definition disconnect ::
  "('h, 'n) ftplib \<Rightarrow> 'h FTPService \<Rightarrow> 'n world \<Rightarrow> (unit, 'h, 'n) outcome" where
  "disconnect lib self w =
     (case ftp self of
        None \<Rightarrow> (Inr (), self, w)
      | Some h \<Rightarrow>
          (case quit lib h (net w) of
             (Inl e, n1) \<Rightarrow> (Inl (FTPLibError e), self, w\<lparr>net := n1\<rparr>)
           | (Inr _, n1) \<Rightarrow> (Inr (), self\<lparr>ftp := None\<rparr>, w\<lparr>net := n1\<rparr>)))"

definition list_directory ::
  "('h, 'n) ftplib \<Rightarrow> 'h FTPService \<Rightarrow> string \<Rightarrow> 'n world
     \<Rightarrow> (string \<times> item list, 'h, 'n) outcome" where
  "list_directory lib self path w =
     (case ftp self of
        None \<Rightarrow> (Inl (AttributeError ''cwd''), self, w)
      | Some h \<Rightarrow>
          (case cwd lib h path (net w) of
             (Inl e, n1) \<Rightarrow> (Inl (FTPLibError e), self, w\<lparr>net := n1\<rparr>)
           | (Inr _, n1) \<Rightarrow>
               (case pwd lib h n1 of
                  (Inl e, n2) \<Rightarrow> (Inl (FTPLibError e), self, w\<lparr>net := n2\<rparr>)
                | (Inr current_path, n2) \<Rightarrow>
                    (case dir lib h n2 of
                       (Inl e, n3) \<Rightarrow> (Inl (FTPLibError e), self, w\<lparr>net := n3\<rparr>)
                     | (Inr lines, n3) \<Rightarrow>
                         (Inr (current_path, listing_items lines), self,
                          w\<lparr>net := n3\<rparr>)))))"

definition upload_file ::
  "('h, 'n) ftplib \<Rightarrow> 'h FTPService \<Rightarrow> string \<Rightarrow> string \<Rightarrow> 'n world
     \<Rightarrow> (unit, 'h, 'n) outcome" where
  "upload_file lib self local_path remote_name w =
     (case files w local_path of
        None \<Rightarrow> (Inl (OSError local_path), self, w)
      | Some f \<Rightarrow>
          (case ftp self of
             None \<Rightarrow> (Inl (AttributeError ''storbinary''), self, w)
           | Some h \<Rightarrow>
               (case storbinary lib h (''STOR '' @ remote_name) f (net w) of
                  (Inl e, n1) \<Rightarrow> (Inl (FTPLibError e), self, w\<lparr>net := n1\<rparr>)
                | (Inr _, n1) \<Rightarrow> (Inr (), self, w\<lparr>net := n1\<rparr>))))"

definition download_file ::
  "('h, 'n) ftplib \<Rightarrow> 'h FTPService \<Rightarrow> string \<Rightarrow> string \<Rightarrow> 'n world
     \<Rightarrow> (unit, 'h, 'n) outcome" where
  "download_file lib self remote_name local_path w =
     (if \<not> writable w local_path then (Inl (OSError local_path), self, w)
      else
        let w1 = w\<lparr>files := (files w)(local_path \<mapsto> [])\<rparr>
        in case ftp self of
             None \<Rightarrow> (Inl (AttributeError ''retrbinary''), self, w1)
           | Some h \<Rightarrow>
               (case retrbinary lib h (''RETR '' @ remote_name) (net w1) of
                  ((r, blocks), n1) \<Rightarrow>
                    (let w2 = w1\<lparr>net := n1,
                                 files := (files w1)(local_path \<mapsto> write_blocks blocks [])\<rparr>
                     in case r of
                          Inl e \<Rightarrow> (Inl (FTPLibError e), self, w2)
                        | Inr _ \<Rightarrow> (Inr (), self, w2))))"

definition is_connected :: "'h FTPService \<Rightarrow> bool" where
  "is_connected self = (ftp self \<noteq> None)"

section \<open>A reference environment\<close>

text \<open>
  One concrete library, for running the service: \<open>ftplib\<close> talking to a small
  single-user server. The server greets, knows its accounts, has a working directory,
  emits fixed listing lines for each of its directories and keeps the objects stored in
  it by name. When \<open>up\<close> is false the transport is gone: a connection cannot be
  opened and a command on an open connection ends in \<open>EOFError\<close>. The connection
  object is the name of the host.
\<close>

record server =
  up :: bool
  greeting :: string
  accounts :: "string \<rightharpoonup> string"
  logged_in :: bool
  rcwd :: string
  rdirs :: "string \<rightharpoonup> string list"
  rfiles :: "string \<rightharpoonup> bytes"

definition getresp :: "string \<Rightarrow> lib_error + string" where
  \<comment> \<open>\<open>FTP.getresp\<close>: a reply is returned or raised by its first digit\<close>
  "getresp resp =
     (if resp = [] then Inl EOFError
      else if startswith resp ''1'' \<or> startswith resp ''2'' \<or> startswith resp ''3''
      then Inr resp
      else if startswith resp ''4'' then Inl (error_temp resp)
      else if startswith resp ''5'' then Inl (error_perm resp)
      else Inl (error_proto resp))"

definition blocksize :: nat where
  \<comment> \<open>the default block size of \<open>storbinary\<close> and \<open>retrbinary\<close>\<close>
  "blocksize = 8192"

function blocks_of :: "nat \<Rightarrow> bytes \<Rightarrow> bytes list" where
  \<comment> \<open>the successive results of \<open>read(n)\<close> or \<open>recv(n)\<close> up to the empty one\<close>
  "blocks_of n buf =
     (if n = 0 \<or> buf = [] then [] else take n buf # blocks_of n (drop n buf))"
  by pat_completeness auto
termination
  by (relation "measure (\<lambda>(n, buf). length buf)") auto

declare blocks_of.simps [simp del]

definition ref_FTP :: "string \<Rightarrow> nat \<Rightarrow> server \<Rightarrow> (lib_error + string) \<times> server" where
  "ref_FTP host timeout sv =
     (if \<not> up sv then (Inl socket_error, sv)
      else case getresp (greeting sv) of
             Inl e \<Rightarrow> (Inl e, sv)
           | Inr _ \<Rightarrow> (Inr host, sv\<lparr>logged_in := False\<rparr>))"

definition ref_login ::
  "string \<Rightarrow> string \<Rightarrow> string \<Rightarrow> server \<Rightarrow> (lib_error + string) \<times> server" where
  \<comment> \<open>\<open>USER\<close> is answered 331; \<open>PASS\<close> is answered 230 or 530\<close>
  "ref_login h user passwd sv =
     (if \<not> up sv then (Inl EOFError, sv)
      else case getresp ''331 Password required'' of
             Inl e \<Rightarrow> (Inl e, sv)
           | Inr resp \<Rightarrow>
               (case (if startswith resp ''3''
                      then getresp (if accounts sv user = Some passwd
                                    then ''230 Logged in'' else ''530 Login incorrect'')
                      else Inr resp) of
                  Inl e \<Rightarrow> (Inl e, sv)
                | Inr resp \<Rightarrow>
                    (if startswith resp ''2'' then (Inr resp, sv\<lparr>logged_in := True\<rparr>)
                     else (Inl (error_reply resp), sv))))"

definition ref_quit :: "string \<Rightarrow> server \<Rightarrow> (lib_error + string) \<times> server" where
  "ref_quit h sv =
     (if \<not> up sv then (Inl EOFError, sv)
      else (Inr ''221 Goodbye'', sv\<lparr>up := False, logged_in := False\<rparr>))"

definition ref_cwd :: "string \<Rightarrow> string \<Rightarrow> server \<Rightarrow> (lib_error + string) \<times> server" where
  "ref_cwd h path sv =
     (if \<not> up sv then (Inl EOFError, sv)
      else if \<not> logged_in sv then (Inl (error_perm ''530 Not logged in''), sv)
      else if rdirs sv path = None then (Inl (error_perm ''550 No such directory''), sv)
      else (Inr ''250 Directory changed'', sv\<lparr>rcwd := path\<rparr>))"

definition ref_pwd :: "string \<Rightarrow> server \<Rightarrow> (lib_error + string) \<times> server" where
  "ref_pwd h sv =
     (if \<not> up sv then (Inl EOFError, sv)
      else if \<not> logged_in sv then (Inl (error_perm ''530 Not logged in''), sv)
      else (Inr (rcwd sv), sv))"

definition ref_dir :: "string \<Rightarrow> server \<Rightarrow> (lib_error + string list) \<times> server" where
  "ref_dir h sv =
     (if \<not> up sv then (Inl EOFError, sv)
      else if \<not> logged_in sv then (Inl (error_perm ''530 Not logged in''), sv)
      else case rdirs sv (rcwd sv) of
             None \<Rightarrow> (Inl (error_perm ''550 No such directory''), sv)
           | Some lines \<Rightarrow> (Inr lines, sv))"

definition ref_storbinary ::
  "string \<Rightarrow> string \<Rightarrow> bytes \<Rightarrow> server \<Rightarrow> (lib_error + string) \<times> server" where
  \<comment> \<open>the file is read block by block and the server keeps what it receives\<close>
  "ref_storbinary h cmd f sv =
     (if \<not> up sv then (Inl EOFError, sv)
      else if \<not> logged_in sv then (Inl (error_perm ''530 Not logged in''), sv)
      else (Inr ''226 Transfer complete'',
            sv\<lparr>rfiles := (rfiles sv)(drop 5 cmd \<mapsto> concat (blocks_of blocksize f))\<rparr>))"

definition ref_retrbinary ::
  "string \<Rightarrow> string \<Rightarrow> server \<Rightarrow> ((lib_error + string) \<times> bytes list) \<times> server" where
  \<comment> \<open>a missing object is refused before any data flows\<close>
  "ref_retrbinary h cmd sv =
     (if \<not> up sv then ((Inl EOFError, []), sv)
      else if \<not> logged_in sv then ((Inl (error_perm ''530 Not logged in''), []), sv)
      else case rfiles sv (drop 5 cmd) of
             None \<Rightarrow> ((Inl (error_perm ''550 No such file''), []), sv)
           | Some data \<Rightarrow> ((Inr ''226 Transfer complete'', blocks_of blocksize data), sv))"

definition ref_lib :: "(string, server) ftplib" where
  "ref_lib =
     \<lparr>FTP = ref_FTP, login = ref_login, quit = ref_quit, cwd = ref_cwd, pwd = ref_pwd,
      dir = ref_dir, storbinary = ref_storbinary, retrbinary = ref_retrbinary\<rparr>"

text \<open>
  The server of the scenarios: the account \<open>alice\<close>, the directories \<open>/\<close> and \<open>/pub\<close>
  with the listing lines given, no stored object.
\<close>

definition example_server :: "string list \<Rightarrow> server" where
  "example_server lines =
     \<lparr>up = True, greeting = ''220 Welcome'', accounts = [''alice'' \<mapsto> ''secret''],
      logged_in = False, rcwd = ''/'', rdirs = [''/'' \<mapsto> [], ''/pub'' \<mapsto> lines],
      rfiles = Map.empty\<rparr>"

definition example_world :: "string list \<Rightarrow> server world" where
  \<comment> \<open>one local file, \<open>a.txt\<close>; every path but \<open>/ro\<close> can be opened for writing\<close>
  "example_world lines =
     \<lparr>net = example_server lines, files = [''a.txt'' \<mapsto> [104, 105]],
      writable = (\<lambda>p. p \<noteq> ''/ro'')\<rparr>"

definition example_session :: "string FTPService" where
  \<comment> \<open>the service once \<open>connect\<close> has set \<open>self.ftp\<close>\<close>
  "example_session = \<lparr>ftp = Some ''ftp.example.com''\<rparr>"

definition example_connected :: "string list \<Rightarrow> server world" where
  \<comment> \<open>the example world once \<open>alice\<close> is logged in\<close>
  "example_connected lines =
     (example_world lines)\<lparr>net := (example_server lines)\<lparr>logged_in := True\<rparr>\<rparr>"

section \<open>Properties of a library that the claims refer to\<close>

definition stores_faithfully :: "('h, 'n) ftplib \<Rightarrow> bool" where
  \<comment> \<open>an object stored under a name and retrieved next under that name comes back
     as the bytes that were sent\<close>
  "stores_faithfully lib =
     (\<forall>h remote_name f n r n1 r' blocks n2.
        storbinary lib h (''STOR '' @ remote_name) f n = (Inr r, n1) \<longrightarrow>
        retrbinary lib h (''RETR '' @ remote_name) n1 = ((Inr r', blocks), n2) \<longrightarrow>
        concat blocks = f)"

section \<open>Lemmas on the listing\<close>

lemma parse_lines_eq:
  "parse_lines ls acc =
     acc @ map (\<lambda>line. \<lparr>name = join '' '' (drop 8 (split line)),
                        item_type = (if startswith line ''d'' then ''Directorio''
                                     else ''Archivo''),
                        item_size = (if startswith line ''d'' then '''' else split line ! 4),
                        is_dir = startswith line ''d''\<rparr>)
             (filter (\<lambda>line. 9 \<le> length (split line)) ls)"
  by (induction ls arbitrary: acc) (simp_all add: Let_def not_less)

lemma listing_items_eq:
  "listing_items lines =
     map (\<lambda>line. \<lparr>name = join '' '' (drop 8 (split line)),
                  item_type = (if startswith line ''d'' then ''Directorio'' else ''Archivo''),
                  item_size = (if startswith line ''d'' then '''' else split line ! 4),
                  is_dir = startswith line ''d''\<rparr>)
         (filter (\<lambda>line. 9 \<le> length (split line)) (sorted_by lower lines))"
  by (simp add: listing_items_def parse_lines_eq)

lemma filter_sorted_by: "filter P (sorted_by key xs) = sorted_by key (filter P xs)"
  by (simp add: sorted_by_def filter_sort)

lemma length_sorted_by: "length (sorted_by key xs) = length xs"
  by (simp add: sorted_by_def)

lemma listing_items_length:
  "length (listing_items lines) = length (filter (\<lambda>line. 9 \<le> length (split line)) lines)"
  by (simp add: listing_items_eq filter_sorted_by length_sorted_by)

lemma listing_items_filter:
  "listing_items (filter (\<lambda>line. 9 \<le> length (split line)) lines) = listing_items lines"
  by (simp add: listing_items_eq filter_sorted_by)

lemma split_from_hd:
  "tok \<noteq> [] \<Longrightarrow> split_from tok s \<noteq> [] \<and> hd (hd (split_from tok s)) = hd tok"
  by (induction s arbitrary: tok) auto

lemma split_from_tokens_nonempty: "t \<in> set (split_from tok s) \<Longrightarrow> t \<noteq> []"
  by (induction s arbitrary: tok) (auto split: if_splits)

lemma split_first_token:
  assumes "split line \<noteq> []" and "\<not> isspace (hd line)"
  shows "split line ! 0 \<noteq> [] \<and> hd (split line ! 0) = hd line"
proof (cases line)
  case Nil
  with assms(1) show ?thesis by (simp add: split_def)
next
  case (Cons c cs)
  with assms(2) have eq: "split line = split_from [c] cs"
    by (simp add: split_def)
  have first: "split_from [c] cs \<noteq> []" "hd (hd (split_from [c] cs)) = c"
    using split_from_hd [of "[c]" cs] by simp_all
  then have "hd (split_from [c] cs) \<in> set (split_from [c] cs)"
    by simp
  then have ne: "hd (split_from [c] cs) \<noteq> []"
    by (rule split_from_tokens_nonempty)
  have nth: "split_from [c] cs ! 0 = hd (split_from [c] cs)"
    using first(1) by (rule hd_conv_nth [symmetric])
  have key: "split line ! 0 = hd (split_from [c] cs)"
    by (simp only: eq nth)
  have "hd line = c"
    using Cons by simp
  with key ne first(2) show ?thesis
    by simp
qed

lemma startswith_char: "startswith s [c] = (s \<noteq> [] \<and> hd s = c)"
  by (cases s) (simp_all add: startswith_def)

section \<open>Lemmas on the transfer of blocks\<close>

lemma write_blocks_concat: "write_blocks blocks buf = buf @ concat blocks"
  by (induction blocks arbitrary: buf) simp_all

lemma concat_blocks_of: "0 < n \<Longrightarrow> concat (blocks_of n buf) = buf"
proof (induction n buf rule: blocks_of.induct)
  case (1 n buf)
  show ?case
  proof (cases "buf = []")
    case True
    then show ?thesis by (subst blocks_of.simps) simp
  next
    case False
    with 1 have "concat (blocks_of n (drop n buf)) = drop n buf"
      by simp
    with False "1.prems" show ?thesis
      by (subst blocks_of.simps) simp
  qed
qed

lemma ref_lib_stores_faithfully: "stores_faithfully ref_lib"
  by (auto simp: stores_faithfully_def ref_lib_def ref_storbinary_def ref_retrbinary_def
      concat_blocks_of blocksize_def split: if_splits)

section \<open>The order of the listing\<close>

text \<open>
  C1. The claim is that the entries \<open>list_directory\<close> returns are sorted
  case-insensitively by their \<open>name\<close>. The loop runs over
  \<open>sorted(lines, key=str.lower)\<close>: it is the raw lines that are sorted, and a raw line
  begins with its permission string, not with the name. On a server that emits the
  directory \<open>a\<close> and the file \<open>b\<close>, the line of \<open>b\<close> begins with \<open>-\<close>, which is below
  \<open>d\<close>, so \<open>b\<close> is returned before \<open>a\<close>: the names are not in ascending order.
\<close>

theorem list_directory_order_is_by_raw_line:
  "fst (list_directory ref_lib example_session ''/pub''
          (example_connected [''drwxr-xr-x 2 u g 4096 Jan 1 00:00 a'',
                              ''-rw-r--r-- 1 u g 120 Jan 1 00:00 b''])) =
     Inr (''/pub'',
          [\<lparr>name = ''b'', item_type = ''Archivo'', item_size = ''120'', is_dir = False\<rparr>,
           \<lparr>name = ''a'', item_type = ''Directorio'', item_size = '''', is_dir = True\<rparr>]) \<and>
   \<not> sorted (map lower [''b'', ''a''])"
  by code_simp

section \<open>Lines that are not entries\<close>

text \<open>
  C5. When the server answers the three commands of \<open>list_directory\<close>, the call
  returns (it does not raise), each line of at least 9 tokens yields exactly one entry,
  and the lines of fewer than 9 tokens yield none: the result has as many entries as
  there are lines of at least 9 tokens, and it is the result the call would have given
  had the shorter lines not been emitted at all.
\<close>

theorem list_directory_skips_short_lines:
  assumes "ftp self = Some h"
      and "cwd lib h path (net w) = (Inr r, n1)"
      and "pwd lib h n1 = (Inr current_path, n2)"
      and "dir lib h n2 = (Inr lines, n3)"
  shows "list_directory lib self path w =
           (Inr (current_path, listing_items lines), self, w\<lparr>net := n3\<rparr>) \<and>
         length (listing_items lines) =
           length (filter (\<lambda>line. 9 \<le> length (split line)) lines) \<and>
         listing_items lines =
           listing_items (filter (\<lambda>line. 9 \<le> length (split line)) lines)"
  using assms
  by (simp add: list_directory_def listing_items_length listing_items_filter)

theorem list_directory_skips_short_lines_witness:
  "ftp example_session = Some ''ftp.example.com'' \<and>
   cwd ref_lib ''ftp.example.com'' ''/pub''
       (net (example_connected [''total 8'', ''drwxr-xr-x 2 u g 4096 Jan 1 00:00 docs'',
                                ''-rw-r--r-- 1 u g 120 Jan 1 00:00 a.txt''])) =
     (Inr ''250 Directory changed'',
      (example_server [''total 8'', ''drwxr-xr-x 2 u g 4096 Jan 1 00:00 docs'',
                       ''-rw-r--r-- 1 u g 120 Jan 1 00:00 a.txt''])
        \<lparr>logged_in := True, rcwd := ''/pub''\<rparr>) \<and>
   length (split ''total 8'') = 2 \<and>
   length (listing_items [''total 8'', ''drwxr-xr-x 2 u g 4096 Jan 1 00:00 docs'',
                          ''-rw-r--r-- 1 u g 120 Jan 1 00:00 a.txt'']) = 2 \<and>
   fst (list_directory ref_lib example_session ''/pub''
          (example_connected [''total 8'', ''drwxr-xr-x 2 u g 4096 Jan 1 00:00 docs'',
                              ''-rw-r--r-- 1 u g 120 Jan 1 00:00 a.txt''])) =
     Inr (''/pub'',
          listing_items [''drwxr-xr-x 2 u g 4096 Jan 1 00:00 docs'',
                         ''-rw-r--r-- 1 u g 120 Jan 1 00:00 a.txt''])"
proof -
  let ?lines = "[''total 8'', ''drwxr-xr-x 2 u g 4096 Jan 1 00:00 docs'',
                 ''-rw-r--r-- 1 u g 120 Jan 1 00:00 a.txt'']"
  let ?n = "(example_server ?lines)\<lparr>logged_in := True, rcwd := ''/pub''\<rparr>"
  have s: "ftp example_session = Some ''ftp.example.com''"
    by (simp add: example_session_def)
  have c: "cwd ref_lib ''ftp.example.com'' ''/pub'' (net (example_connected ?lines)) =
             (Inr ''250 Directory changed'', ?n)"
    by (simp add: ref_lib_def ref_cwd_def example_connected_def example_server_def)
  have p: "pwd ref_lib ''ftp.example.com'' ?n = (Inr ''/pub'', ?n)"
    by (simp add: ref_lib_def ref_pwd_def example_server_def)
  have d: "dir ref_lib ''ftp.example.com'' ?n = (Inr ?lines, ?n)"
    by (simp add: ref_lib_def ref_dir_def example_server_def)
  have t: "length (split ''total 8'') = 2"
    by code_simp
  have f: "filter (\<lambda>line. 9 \<le> length (split line)) ?lines =
             [''drwxr-xr-x 2 u g 4096 Jan 1 00:00 docs'',
              ''-rw-r--r-- 1 u g 120 Jan 1 00:00 a.txt'']"
    by code_simp
  note skips = list_directory_skips_short_lines [OF s c p d]
  have r: "fst (list_directory ref_lib example_session ''/pub'' (example_connected ?lines)) =
             Inr (''/pub'', listing_items ?lines)"
    by (simp only: skips [THEN conjunct1] fst_conv)
  have l: "length (listing_items ?lines) = 2"
    by (simp only: skips [THEN conjunct2, THEN conjunct1] f) simp
  have e: "listing_items ?lines =
             listing_items [''drwxr-xr-x 2 u g 4096 Jan 1 00:00 docs'',
                            ''-rw-r--r-- 1 u g 120 Jan 1 00:00 a.txt'']"
    using skips [THEN conjunct2, THEN conjunct2] by (simp only: f)
  have r': "fst (list_directory ref_lib example_session ''/pub'' (example_connected ?lines)) =
              Inr (''/pub'', listing_items [''drwxr-xr-x 2 u g 4096 Jan 1 00:00 docs'',
                                            ''-rw-r--r-- 1 u g 120 Jan 1 00:00 a.txt''])"
    using r by (simp only: e)
  from s c t l r' show ?thesis
    by (intro conjI)
qed

section \<open>The fields of an entry\<close>

text \<open>
  C6, as amended. The entries are, in the order of the sorted lines, one for each line
  of at least 9 tokens. The name of the entry is the tokens from position 8 onward
  joined by single spaces; the entry is a directory if and only if the raw line itself
  begins with \<open>d\<close>; its size is the token at position 4 when it is a file and the empty
  string when it is a directory. When the line does not begin with a whitespace
  character, the first character of the line is the first character of the permission
  string (the token at position 0), so there the kind is decided by the permission
  string.
\<close>

theorem listing_entry_fields:
  "listing_items lines =
     map (\<lambda>line. \<lparr>name = join '' '' (drop 8 (split line)),
                  item_type = (if startswith line ''d'' then ''Directorio'' else ''Archivo''),
                  item_size = (if startswith line ''d'' then '''' else split line ! 4),
                  is_dir = startswith line ''d''\<rparr>)
         (filter (\<lambda>line. 9 \<le> length (split line)) (sorted_by lower lines)) \<and>
   (9 \<le> length (split line) \<and> \<not> isspace (hd line) \<longrightarrow>
      startswith line ''d'' = startswith (split line ! 0) ''d'')"
proof -
  have "startswith line ''d'' = startswith (split line ! 0) ''d''"
    if "9 \<le> length (split line)" and "\<not> isspace (hd line)"
  proof -
    from that(1) have "split line \<noteq> []" by auto
    then have tok: "split line ! 0 \<noteq> [] \<and> hd (split line ! 0) = hd line"
      using that(2) by (rule split_first_token)
    from that(1) have "line \<noteq> []" by (auto simp: split_def)
    with tok show ?thesis by (simp add: startswith_char)
  qed
  then show ?thesis by (simp add: listing_items_eq)
qed

theorem listing_entry_fields_witness:
  "9 \<le> length (split ''drwxr-xr-x 2 u g 4096 Jan 1 00:00 my docs'') \<and>
   \<not> isspace (hd ''drwxr-xr-x 2 u g 4096 Jan 1 00:00 my docs'') \<and>
   startswith (split ''drwxr-xr-x 2 u g 4096 Jan 1 00:00 my docs'' ! 0) ''d'' \<and>
   listing_items [''drwxr-xr-x 2 u g 4096 Jan 1 00:00 my docs''] =
     [\<lparr>name = ''my docs'', item_type = ''Directorio'', item_size = '''', is_dir = True\<rparr>]"
proof -
  let ?line = "''drwxr-xr-x 2 u g 4096 Jan 1 00:00 my docs''"
  have a: "9 \<le> length (split ?line)" by code_simp
  have b: "\<not> isspace (hd ?line)" by code_simp
  have c: "startswith ?line ''d''" by code_simp
  have d: "listing_items [?line] =
             [\<lparr>name = ''my docs'', item_type = ''Directorio'', item_size = '''',
               is_dir = True\<rparr>]"
    by code_simp
  from listing_entry_fields [of "[?line]" ?line] a b c d
  show ?thesis by simp
qed

text \<open>
  The claim as it was stated fails on a line that begins with a space: the line has 9
  tokens and its permission string begins with \<open>d\<close>, but the entry is a file and
  carries a size.
\<close>

theorem listing_entry_kind_counterexample:
  "length (split '' drwxr-xr-x 2 u g 4096 Jan 1 00:00 docs'') = 9 \<and>
   startswith (split '' drwxr-xr-x 2 u g 4096 Jan 1 00:00 docs'' ! 0) ''d'' \<and>
   listing_items ['' drwxr-xr-x 2 u g 4096 Jan 1 00:00 docs''] =
     [\<lparr>name = ''docs'', item_type = ''Archivo'', item_size = ''4096'', is_dir = False\<rparr>]"
  by code_simp

section \<open>Operations without a session\<close>

text \<open>
  C2, as amended. On a client that holds no session (\<open>self.ftp\<close> is \<open>None\<close>, as after
  \<open>__init__\<close> or after a disconnect) each data operation raises and leaves the service
  without a session; none raises \<open>NotConnectedError\<close>. \<open>list_directory\<close> raises
  \<open>AttributeError\<close>. \<open>upload_file\<close> raises \<open>OSError\<close> when the local file cannot be
  opened and \<open>AttributeError\<close> otherwise. \<open>download_file\<close> raises \<open>OSError\<close> when the
  local path cannot be opened for writing, and otherwise \<open>AttributeError\<close>, after the
  local file has been created or truncated.
\<close>

theorem no_session_operations_raise:
  assumes "ftp self = None"
  shows "list_directory lib self path w = (Inl (AttributeError ''cwd''), self, w) \<and>
         upload_file lib self local_path remote_name w =
           (Inl (if files w local_path = None then OSError local_path
                 else AttributeError ''storbinary''), self, w) \<and>
         download_file lib self remote_name local_path w =
           (if writable w local_path
            then (Inl (AttributeError ''retrbinary''), self,
                  w\<lparr>files := (files w)(local_path \<mapsto> [])\<rparr>)
            else (Inl (OSError local_path), self, w))"
  using assms
  by (simp add: list_directory_def upload_file_def download_file_def split: option.splits)

theorem no_session_operations_raise_witness:
  "ftp (init :: string FTPService) = None \<and>
   fst (list_directory ref_lib init ''/'' (example_world [])) = Inl (AttributeError ''cwd'') \<and>
   fst (upload_file ref_lib init ''a.txt'' ''a.txt'' (example_world [])) =
     Inl (AttributeError ''storbinary'') \<and>
   fst (upload_file ref_lib init ''none.txt'' ''a.txt'' (example_world [])) =
     Inl (OSError ''none.txt'') \<and>
   fst (download_file ref_lib init ''a.txt'' ''a.txt'' (example_world [])) =
     Inl (AttributeError ''retrbinary'') \<and>
   fst (download_file ref_lib init ''a.txt'' ''/ro'' (example_world [])) = Inl (OSError ''/ro'')"
proof -
  have i: "ftp (init :: string FTPService) = None"
    by (simp add: init_def)
  show ?thesis
    using i
      no_session_operations_raise [OF i, of ref_lib "''/''" "example_world []" "''a.txt''"
        "''a.txt''"]
      no_session_operations_raise [OF i, of ref_lib "''/''" "example_world []" "''none.txt''"
        "''a.txt''"]
      no_session_operations_raise [OF i, of ref_lib "''/''" "example_world []" "''/ro''"
        "''a.txt''"]
    by (simp add: example_world_def)
qed

text \<open>
  The claim as it was stated fails on the client that has never connected: the error of
  \<open>list_directory\<close> is the \<open>AttributeError\<close> of \<open>None.cwd\<close>.
\<close>

theorem not_connected_error_counterexample:
  "fst (list_directory ref_lib (init :: string FTPService) ''/'' (example_world [])) =
     Inl (AttributeError ''cwd'') \<and>
   fst (list_directory ref_lib (init :: string FTPService) ''/'' (example_world [])) \<noteq>
     Inl NotConnectedError"
  by (simp add: list_directory_def init_def)

section \<open>Disconnecting\<close>

text \<open>
  C3, as amended. \<open>disconnect\<close> on a client without a session is a no-op and does not
  raise. On a client with a session it sends the termination command, and it returns
  normally exactly when that command does. Whenever \<open>disconnect\<close> returns normally the
  session is cleared, so \<open>is_connected\<close> is false, and a second call in succession
  returns normally, changes nothing and leaves \<open>is_connected\<close> false.
\<close>

theorem disconnect_clears_session_when_it_returns:
  "(ftp self = None \<longrightarrow> disconnect lib self w = (Inr (), self, w)) \<and>
   (\<forall>h. ftp self = Some h \<longrightarrow>
      (fst (disconnect lib self w) = Inr ()) = (\<exists>r. fst (quit lib h (net w)) = Inr r)) \<and>
   (fst (disconnect lib self w) = Inr () \<longrightarrow>
      \<not> is_connected (fst (snd (disconnect lib self w))) \<and>
      disconnect lib (fst (snd (disconnect lib self w))) (snd (snd (disconnect lib self w))) =
        (Inr (), fst (snd (disconnect lib self w)), snd (snd (disconnect lib self w))))"
  by (auto simp: disconnect_def is_connected_def split: option.splits prod.splits sum.splits)

theorem disconnect_clears_session_when_it_returns_witness:
  "ftp (init :: string FTPService) = None \<and>
   disconnect ref_lib init (example_world []) = (Inr (), init, example_world []) \<and>
   ftp example_session = Some ''ftp.example.com'' \<and>
   fst (quit ref_lib ''ftp.example.com'' (net (example_connected []))) = Inr ''221 Goodbye'' \<and>
   fst (disconnect ref_lib example_session (example_connected [])) = Inr () \<and>
   \<not> is_connected (fst (snd (disconnect ref_lib example_session (example_connected [])))) \<and>
   fst (disconnect ref_lib
          (fst (snd (disconnect ref_lib example_session (example_connected []))))
          (snd (snd (disconnect ref_lib example_session (example_connected []))))) = Inr ()"
proof -
  have i: "ftp (init :: string FTPService) = None"
    by (simp add: init_def)
  have s: "ftp example_session = Some ''ftp.example.com''"
    by (simp add: example_session_def)
  have q: "fst (quit ref_lib ''ftp.example.com'' (net (example_connected []))) =
             Inr ''221 Goodbye''"
    by (simp add: ref_lib_def ref_quit_def example_connected_def example_server_def)
  note a = disconnect_clears_session_when_it_returns [of init ref_lib "example_world []"]
  note b = disconnect_clears_session_when_it_returns
             [of example_session ref_lib "example_connected []"]
  from a i have a1: "disconnect ref_lib init (example_world []) =
                       (Inr (), init, example_world [])"
    by blast
  from b s q have b1: "fst (disconnect ref_lib example_session (example_connected [])) = Inr ()"
    by blast
  with b have b2:
    "\<not> is_connected (fst (snd (disconnect ref_lib example_session (example_connected []))))"
    and b3: "disconnect ref_lib
               (fst (snd (disconnect ref_lib example_session (example_connected []))))
               (snd (snd (disconnect ref_lib example_session (example_connected [])))) =
             (Inr (), fst (snd (disconnect ref_lib example_session (example_connected []))),
              snd (snd (disconnect ref_lib example_session (example_connected []))))"
    by blast+
  from b3 have b4: "fst (disconnect ref_lib
               (fst (snd (disconnect ref_lib example_session (example_connected []))))
               (snd (snd (disconnect ref_lib example_session (example_connected []))))) = Inr ()"
    by (simp only: fst_conv)
  from i a1 s q b1 b2 b4 show ?thesis
    by (intro conjI)
qed

text \<open>
  The claim as it was stated fails when the control connection is gone: the termination
  command raises, \<open>disconnect\<close> raises with it, and the session is still set.
\<close>

theorem disconnect_raises_counterexample:
  "fst (disconnect ref_lib example_session
          ((example_connected [])\<lparr>net := (example_server [])\<lparr>up := False\<rparr>\<rparr>)) =
     Inl (FTPLibError EOFError) \<and>
   is_connected (fst (snd (disconnect ref_lib example_session
          ((example_connected [])\<lparr>net := (example_server [])\<lparr>up := False\<rparr>\<rparr>))))"
  by (simp add: disconnect_def ref_lib_def ref_quit_def example_session_def
      example_connected_def example_world_def example_server_def is_connected_def)

section \<open>Connecting\<close>

text \<open>
  C4. The claim is that every failure during the connect sequence leaves the session
  disconnected. \<open>connect\<close> assigns \<open>self.ftp\<close> as soon as the transport is open and the
  server has greeted, before it logs in, and nothing resets it when the login raises:
  on a rejected password \<open>connect\<close> raises and \<open>is_connected\<close> is true.
\<close>

theorem connect_rejected_login_leaves_session:
  "fst (connect ref_lib init ''ftp.example.com'' ''alice'' ''wrong'' default_timeout
          (example_world [])) =
     Inl (FTPLibError (error_perm ''530 Login incorrect'')) \<and>
   is_connected (fst (snd (connect ref_lib init ''ftp.example.com'' ''alice'' ''wrong''
                             default_timeout (example_world []))))"
  by (simp add: connect_def ref_lib_def ref_FTP_def ref_login_def getresp_def startswith_def
      example_world_def example_server_def init_def is_connected_def)

text \<open>
  C7. When the transport opens and the login is accepted, \<open>connect\<close> returns the message
  the login returns, which is the server's final reply, and the session is set, so
  \<open>is_connected\<close> is true.
\<close>

theorem connect_returns_welcome_message:
  assumes "FTP lib host timeout (net w) = (Inr h, n1)"
      and "login lib h user password n1 = (Inr welcome_message, n2)"
  shows "connect lib self host user password timeout w =
           (Inr welcome_message, self\<lparr>ftp := Some h\<rparr>, w\<lparr>net := n2\<rparr>) \<and>
         is_connected (fst (snd (connect lib self host user password timeout w)))"
  using assms by (simp add: connect_def is_connected_def)

theorem connect_returns_welcome_message_witness:
  "FTP ref_lib ''ftp.example.com'' default_timeout (net (example_world [])) =
     (Inr ''ftp.example.com'', example_server []) \<and>
   login ref_lib ''ftp.example.com'' ''alice'' ''secret'' (example_server []) =
     (Inr ''230 Logged in'', (example_server [])\<lparr>logged_in := True\<rparr>) \<and>
   connect ref_lib init ''ftp.example.com'' ''alice'' ''secret'' default_timeout
       (example_world []) =
     (Inr ''230 Logged in'', example_session, example_connected []) \<and>
   is_connected (fst (snd (connect ref_lib init ''ftp.example.com'' ''alice'' ''secret''
                             default_timeout (example_world []))))"
proof -
  have f: "FTP ref_lib ''ftp.example.com'' default_timeout (net (example_world [])) =
             (Inr ''ftp.example.com'', example_server [])"
    by (simp add: ref_lib_def ref_FTP_def getresp_def startswith_def example_world_def
        example_server_def)
  have l: "login ref_lib ''ftp.example.com'' ''alice'' ''secret'' (example_server []) =
             (Inr ''230 Logged in'', (example_server [])\<lparr>logged_in := True\<rparr>)"
    by (simp add: ref_lib_def ref_login_def getresp_def startswith_def example_server_def)
  have e: "(init :: string FTPService)\<lparr>ftp := Some ''ftp.example.com''\<rparr> = example_session"
    by (simp add: init_def example_session_def)
  have c: "(example_world [])\<lparr>net := (example_server [])\<lparr>logged_in := True\<rparr>\<rparr> =
             example_connected []"
    by (simp add: example_connected_def)
  note ok = connect_returns_welcome_message [OF f l, of init]
  from ok have r: "connect ref_lib init ''ftp.example.com'' ''alice'' ''secret''
                      default_timeout (example_world []) =
                    (Inr ''230 Logged in'', example_session, example_connected [])"
    by (simp only: e c)
  from f l r ok show ?thesis
    by (intro conjI) blast+
qed

section \<open>The working directory\<close>

text \<open>
  C9. On a client with a session, \<open>list_directory\<close> issues the change of working
  directory to \<open>path\<close> first, on the state it was called in; the working directory is
  then queried in the state that change has left, and the listing is taken in the
  state after that. The state the call leaves behind is the state after the last
  command it issued: nothing restores the directory, also when a later command raises.
  The path that is returned is the answer to the query made after the change.
\<close>

theorem list_directory_changes_directory:
  assumes "ftp self = Some h"
  shows "net (snd (snd (list_directory lib self path w))) =
           (case cwd lib h path (net w) of
              (Inl e, n1) \<Rightarrow> n1
            | (Inr r, n1) \<Rightarrow>
                (case pwd lib h n1 of
                   (Inl e, n2) \<Rightarrow> n2
                 | (Inr current_path, n2) \<Rightarrow> snd (dir lib h n2))) \<and>
         (\<forall>current_path items.
            fst (list_directory lib self path w) = Inr (current_path, items) \<longrightarrow>
            (\<exists>r n1. cwd lib h path (net w) = (Inr r, n1) \<and>
                    fst (pwd lib h n1) = Inr current_path))"
  using assms
  by (auto simp: list_directory_def split: prod.splits sum.splits)

theorem list_directory_changes_directory_witness:
  "ftp example_session = Some ''ftp.example.com'' \<and>
   fst (list_directory ref_lib example_session ''/pub'' (example_connected [])) =
     Inr (''/pub'', []) \<and>
   rcwd (net (example_connected [])) = ''/'' \<and>
   rcwd (net (snd (snd (list_directory ref_lib example_session ''/pub''
                          (example_connected []))))) = ''/pub'' \<and>
   fst (pwd ref_lib ''ftp.example.com''
          (snd (cwd ref_lib ''ftp.example.com'' ''/pub'' (net (example_connected []))))) =
     Inr ''/pub''"
proof -
  let ?n = "(example_server [])\<lparr>logged_in := True, rcwd := ''/pub''\<rparr>"
  have s: "ftp example_session = Some ''ftp.example.com''"
    by (simp add: example_session_def)
  have c: "cwd ref_lib ''ftp.example.com'' ''/pub'' (net (example_connected [])) =
             (Inr ''250 Directory changed'', ?n)"
    by (simp add: ref_lib_def ref_cwd_def example_connected_def example_server_def)
  have p: "pwd ref_lib ''ftp.example.com'' ?n = (Inr ''/pub'', ?n)"
    by (simp add: ref_lib_def ref_pwd_def example_server_def)
  have d: "dir ref_lib ''ftp.example.com'' ?n = (Inr [], ?n)"
    by (simp add: ref_lib_def ref_dir_def example_server_def)
  have r: "fst (list_directory ref_lib example_session ''/pub'' (example_connected [])) =
             Inr (''/pub'', [])"
    by (simp add: list_directory_def s c p d listing_items_def sorted_by_def)
  have o: "rcwd (net (example_connected [])) = ''/''"
    by (simp add: example_connected_def example_server_def)
  note moved = list_directory_changes_directory
                 [OF s, of ref_lib "''/pub''" "example_connected []"]
  from moved have "net (snd (snd (list_directory ref_lib example_session ''/pub''
                                    (example_connected [])))) = ?n"
    by (simp add: c p d)
  then have n: "rcwd (net (snd (snd (list_directory ref_lib example_session ''/pub''
                                       (example_connected []))))) = ''/pub''"
    by simp
  have q: "fst (pwd ref_lib ''ftp.example.com''
                  (snd (cwd ref_lib ''ftp.example.com'' ''/pub''
                          (net (example_connected []))))) = Inr ''/pub''"
    by (simp add: c p)
  from s r o n q show ?thesis
    by (intro conjI)
qed

section \<open>A download that fails\<close>

text \<open>
  C10. \<open>download_file\<close> opens the local file for writing before it issues the retrieve
  command. When the local path can be opened and the retrieval raises, \<open>download_file\<close>
  raises the same error, and the local file holds exactly the blocks that were delivered
  before the failure, whatever it held before: it is empty when the retrieval was refused
  before any data was sent, as for a remote object that does not exist.
\<close>

theorem download_truncates_local_file_first:
  assumes "writable w local_path"
      and "ftp self = Some h"
      and "retrbinary lib h (''RETR '' @ remote_name) (net w) = ((Inl e, blocks), n1)"
  shows "fst (download_file lib self remote_name local_path w) = Inl (FTPLibError e) \<and>
         files (snd (snd (download_file lib self remote_name local_path w))) local_path =
           Some (concat blocks) \<and>
         (blocks = [] \<longrightarrow>
            files (snd (snd (download_file lib self remote_name local_path w))) local_path =
              Some [])"
  using assms by (simp add: download_file_def write_blocks_concat)

theorem download_truncates_local_file_first_witness:
  "writable (example_connected []) ''a.txt'' \<and>
   ftp example_session = Some ''ftp.example.com'' \<and>
   retrbinary ref_lib ''ftp.example.com'' (''RETR '' @ ''missing'')
       (net (example_connected [])) =
     ((Inl (error_perm ''550 No such file''), []), net (example_connected [])) \<and>
   files (example_connected []) ''a.txt'' = Some [104, 105] \<and>
   fst (download_file ref_lib example_session ''missing'' ''a.txt'' (example_connected [])) =
     Inl (FTPLibError (error_perm ''550 No such file'')) \<and>
   files (snd (snd (download_file ref_lib example_session ''missing'' ''a.txt''
                      (example_connected [])))) ''a.txt'' = Some []"
proof -
  have wr: "writable (example_connected []) ''a.txt''"
    by (simp add: example_connected_def example_world_def)
  have s: "ftp example_session = Some ''ftp.example.com''"
    by (simp add: example_session_def)
  have rt: "retrbinary ref_lib ''ftp.example.com'' (''RETR '' @ ''missing'')
              (net (example_connected [])) =
            ((Inl (error_perm ''550 No such file''), []), net (example_connected []))"
    by (simp add: ref_lib_def ref_retrbinary_def example_connected_def example_server_def)
  have before: "files (example_connected []) ''a.txt'' = Some [104, 105]"
    by (simp add: example_connected_def example_world_def)
  note failed = download_truncates_local_file_first [OF wr s rt]
  from failed have e:
    "fst (download_file ref_lib example_session ''missing'' ''a.txt'' (example_connected [])) =
       Inl (FTPLibError (error_perm ''550 No such file''))"
    by (rule conjunct1)
  from failed have t:
    "files (snd (snd (download_file ref_lib example_session ''missing'' ''a.txt''
                        (example_connected [])))) ''a.txt'' = Some []"
    by blast
  from wr s rt before e t show ?thesis
    by (intro conjI)
qed

section \<open>Upload followed by download\<close>

text \<open>
  C8. With a library that stores faithfully (an object stored under a name and
  retrieved next under that name comes back as the bytes that were sent), when
  \<open>upload_file\<close> returns and the \<open>download_file\<close> of the same remote name that follows
  it returns, the local file written by the download holds exactly the bytes of the
  local file that was uploaded. The two local paths may differ or be the same.
\<close>

theorem upload_then_download_is_identity:
  assumes "stores_faithfully lib"
      and "upload_file lib self local_path remote_name w = (Inr (), self1, w1)"
      and "download_file lib self1 remote_name local_path2 w1 = (Inr (), self2, w2)"
  shows "\<exists>f. files w local_path = Some f \<and> files w2 local_path2 = Some f"
proof -
  from assms(2) obtain f h r n1 where
    f: "files w local_path = Some f" and h: "ftp self = Some h" and
    st: "storbinary lib h (''STOR '' @ remote_name) f (net w) = (Inr r, n1)" and
    s1: "self1 = self" and w1: "w1 = w\<lparr>net := n1\<rparr>"
    by (auto simp: upload_file_def split: option.splits prod.splits sum.splits)
  from assms(3) h s1 w1 obtain r' blocks n2 where
    rt: "retrbinary lib h (''RETR '' @ remote_name) n1 = ((Inr r', blocks), n2)" and
    w2: "files w2 local_path2 = Some (write_blocks blocks [])"
    by (auto simp: download_file_def Let_def split: if_splits prod.splits sum.splits)
  from assms(1) st rt have "concat blocks = f"
    unfolding stores_faithfully_def by blast
  with f w2 show ?thesis
    by (simp add: write_blocks_concat)
qed

theorem upload_then_download_is_identity_witness:
  "stores_faithfully ref_lib \<and>
   upload_file ref_lib example_session ''a.txt'' ''copy'' (example_connected []) =
     (Inr (), example_session,
      (example_connected [])
        \<lparr>net := (example_server [])
                  \<lparr>logged_in := True, rfiles := [''copy'' \<mapsto> [104, 105]]\<rparr>\<rparr>) \<and>
   fst (download_file ref_lib example_session ''copy'' ''b.txt''
          ((example_connected [])
             \<lparr>net := (example_server [])
                       \<lparr>logged_in := True, rfiles := [''copy'' \<mapsto> [104, 105]]\<rparr>\<rparr>)) =
     Inr () \<and>
   files (example_connected []) ''a.txt'' = Some [104, 105] \<and>
   files (snd (snd (download_file ref_lib example_session ''copy'' ''b.txt''
            ((example_connected [])
               \<lparr>net := (example_server [])
                         \<lparr>logged_in := True, rfiles := [''copy'' \<mapsto> [104, 105]]\<rparr>\<rparr>))))
     ''b.txt'' = Some [104, 105]"
proof -
  let ?w1 = "(example_connected [])
               \<lparr>net := (example_server [])
                         \<lparr>logged_in := True, rfiles := [''copy'' \<mapsto> [104, 105]]\<rparr>\<rparr>"
  let ?d = "download_file ref_lib example_session ''copy'' ''b.txt'' ?w1"
  have before: "files (example_connected []) ''a.txt'' = Some [104, 105]"
    by (simp add: example_connected_def example_world_def)
  have u: "upload_file ref_lib example_session ''a.txt'' ''copy'' (example_connected []) =
             (Inr (), example_session, ?w1)"
    by (simp add: upload_file_def ref_lib_def ref_storbinary_def example_session_def
        example_connected_def example_world_def example_server_def concat_blocks_of
        blocksize_def)
  have d1: "fst ?d = Inr ()"
    by (simp add: download_file_def ref_lib_def ref_retrbinary_def example_session_def
        example_connected_def example_world_def example_server_def)
  then have d: "?d = (Inr (), fst (snd ?d), snd (snd ?d))"
    by (simp add: prod_eq_iff)
  from upload_then_download_is_identity [OF ref_lib_stores_faithfully u d]
  have "files (snd (snd ?d)) ''b.txt'' = files (example_connected []) ''a.txt''"
    by auto
  with before have after: "files (snd (snd ?d)) ''b.txt'' = Some [104, 105]"
    by simp
  from ref_lib_stores_faithfully u d1 before after show ?thesis
    by (intro conjI)
qed

end
